theory Spec2Isabelle
  imports Complex_Main
begin

section \<open>Dataset statistics requests and rescaling configuration (nequip/model/scaling)\<close>

subsection \<open>Python values and errors\<close>

text \<open>
  The configuration values and the dataset's results are dynamically typed. A Python
  \<^verbatim>\<open>float\<close> is carried by the real number it denotes (comparisons and the
  literals \<^verbatim>\<open>0.0\<close>, \<^verbatim>\<open>1.0\<close> are exact); a \<^verbatim>\<open>torch.Tensor\<close> by its
  entries. \<^verbatim>\<open>isinstance(v, float)\<close> holds for \<open>PFloat\<close> only,
  \<^verbatim>\<open>isinstance(v, str)\<close> for \<open>PStr\<close> only, and so on.
\<close>

datatype pyval =
    PNone
  | PStr string
  | PFloat real
  | PInt int
  | PBool bool
  | PList "pyval list"
  | PTensor "real list"

text \<open>
  Every \<^verbatim>\<open>raise\<close> of the file is a \<^verbatim>\<open>ValueError\<close>; the four sites are
  told apart by their messages, and each constructor carries what its message prints:
  \<^item> \<open>UnsupportedStatisticKind stat\<close>: \<^verbatim>\<open>Cannot handle {stat} type quantity\<close>;
  \<^item> \<open>InvalidScaleSourceType global_scale\<close>: \<^verbatim>\<open>Invalid global scale `{global_scale}`\<close>;
  \<^item> \<open>DegenerateScaleError global_scale\<close>: \<^verbatim>\<open>Global energy scaling was very low: {global_scale}. ...\<close>;
  \<^item> \<open>ConflictingShiftConfigError\<close>: \<^verbatim>\<open>One can only enable either global shift or per_species shift\<close>.
  The others are the interpreter's (an index out of range, a missing key or
  attribute) and those of the collaborators: \<open>DatasetError\<close> is whatever
  \<^verbatim>\<open>dataset.statistics\<close> raises, \<open>DivisionError\<close> whatever \<^verbatim>\<open>/=\<close> raises.
\<close>

datatype error =
    UnsupportedStatisticKind string
  | InvalidScaleSourceType pyval
  | DegenerateScaleError real
  | ConflictingShiftConfigError
  | IndexError
  | KeyError string
  | AttributeError string
  | DatasetError string
  | DivisionError string

subsection \<open>String operations of Python\<close>

definition startswith :: "string \<Rightarrow> string \<Rightarrow> bool" where
  "startswith s p = (take (length p) s = p)"

text \<open>\<^verbatim>\<open>s.split(c)\<close>: never empty; \<^verbatim>\<open>"".split("_") == [""]\<close>.\<close>

fun split :: "char \<Rightarrow> string \<Rightarrow> string list" where
  "split c [] = [[]]"
| "split c (x # xs) =
     (if x = c then [] # split c xs
      else (case split c xs of
              [] \<Rightarrow> [[x]]
            | t # ts \<Rightarrow> (x # t) # ts))"

text \<open>\<^verbatim>\<open>sep.join(xs)\<close>.\<close>

fun join :: "string \<Rightarrow> string list \<Rightarrow> string" where
  "join sep [] = []"
| "join sep [x] = x"
| "join sep (x # y # ys) = x @ sep @ join sep (y # ys)"

text \<open>\<^verbatim>\<open>xs.index(x)\<close> where \<^verbatim>\<open>x in xs\<close> has been tested: the first position.\<close>

fun index :: "'a list \<Rightarrow> 'a \<Rightarrow> nat" where
  "index [] x = 0"
| "index (y # ys) x = (if y = x then 0 else Suc (index ys x))"

text \<open>\<^verbatim>\<open>xs[i]\<close> for \<open>i \<ge> 0\<close>, raising \<^verbatim>\<open>IndexError\<close> out of range.\<close>

definition getitem :: "'a list \<Rightarrow> nat \<Rightarrow> error + 'a" where
  "getitem xs i = (if i < length xs then Inr (xs ! i) else Inl IndexError)"

subsection \<open>The resolver: compute-stats\<close>

text \<open>The dictionary \<^verbatim>\<open>{"mean": 0, "std": 1, "rms": 0}\<close>.\<close>

definition tuple_id_map :: "string \<rightharpoonup> nat" where
  "tuple_id_map = map_of [(''mean'', 0), (''std'', 1), (''rms'', 0)]"

text \<open>
  The lists the loop of \<^verbatim>\<open>compute_stats\<close> builds (\<^verbatim>\<open>mode_count\<close> is never
  used).
\<close>

record stat_lists =
  stat_modes :: "string list"
  stat_fields :: "string list"
  stat_strs :: "string list"
  ids :: "nat list"
  tuple_ids :: "nat list"

definition no_stats :: stat_lists where
  "no_stats = \<lparr>stat_modes = [], stat_fields = [], stat_strs = [], ids = [], tuple_ids = []\<rparr>"

text \<open>
  The part of the loop body that reads one name (lines 24 to 44): the \<^verbatim>\<open>dataset_\<close>
  prefix, the granularity prefix, the kind and the field. It returns
  \<open>(stat, field, stat_mode, stat_str)\<close>.
\<close>

definition parse_name :: "string \<Rightarrow> error + (string \<times> string \<times> string \<times> string)" where
  "parse_name name0 =
     (let name1 = (if startswith name0 ''dataset_'' then drop (length ''dataset_'') name0 else name0);
          (name, prefix) =
             (if startswith name1 ''per_species_''
                then (drop (length ''per_species_'') name1, ''per_species_'')
              else if startswith name1 ''per_atom_''
                then (drop (length ''per_atom_'') name1, ''per_atom_'')
              else (name1, ''''));
          stat = last (split CHR ''_'' name);
          field = join ''_'' (butlast (split CHR ''_'' name))
      in if stat \<in> set [''mean'', ''std'']
           then Inr (stat, field, prefix @ ''mean_std'', field @ prefix @ ''mean_std'')
         else if stat \<in> set [''rms'']
           then Inr (stat, field, prefix @ ''rms'', field @ prefix @ ''rms'')
         else Inl (UnsupportedStatisticKind stat))"

text \<open>The rest of the body (lines 46 to 53): the slot of the name and its place in the tuple.\<close>

definition record_name :: "stat_lists \<Rightarrow> string \<times> string \<times> string \<times> string \<Rightarrow> error + stat_lists" where
  "record_name st p =
     (case p of (stat, field, stat_mode, stat_str) \<Rightarrow>
        (let st' =
               (if stat_str \<in> set (stat_strs st)
                  then st\<lparr>ids := ids st @ [index (stat_strs st) stat_str]\<rparr>
                else st\<lparr>ids := ids st @ [length (stat_strs st)],
                        stat_strs := stat_strs st @ [stat_str],
                        stat_modes := stat_modes st @ [stat_mode],
                        stat_fields := stat_fields st @ [field]\<rparr>)
         in case tuple_id_map stat of
              None \<Rightarrow> Inl (KeyError stat)
            | Some k \<Rightarrow> Inr (st'\<lparr>tuple_ids := tuple_ids st' @ [k]\<rparr>)))"

fun parse_names :: "string list \<Rightarrow> stat_lists \<Rightarrow> error + stat_lists" where
  "parse_names [] st = Inr st"
| "parse_names (name # names) st =
     (case parse_name name of
        Inl e \<Rightarrow> Inl e
      | Inr p \<Rightarrow>
          (case record_name st p of
             Inl e \<Rightarrow> Inl e
           | Inr st' \<Rightarrow> parse_names names st'))"

text \<open>
  The dataset's capability \<^verbatim>\<open>statistics(fields, modes, stride)\<close>: it returns one
  tuple per slot, or raises. A call is logged as its three arguments.
\<close>

type_synonym dataset = "string list \<Rightarrow> string list \<Rightarrow> pyval \<Rightarrow> string + pyval list list"

type_synonym statistics_call = "string list \<times> string list \<times> pyval"

text \<open>
  The comprehension \<^verbatim>\<open>[values[idx][tuple_ids[i]] for i, idx in enumerate(ids)]\<close>,
  from position \<open>i\<close> on.
\<close>

fun pick_values :: "pyval list list \<Rightarrow> nat list \<Rightarrow> nat \<Rightarrow> nat list \<Rightarrow> error + pyval list" where
  "pick_values values tids i [] = Inr []"
| "pick_values values tids i (idx # rest) =
     (case getitem values idx of
        Inl e \<Rightarrow> Inl e
      | Inr tup \<Rightarrow>
          (case getitem tids i of
             Inl e \<Rightarrow> Inl e
           | Inr k \<Rightarrow>
               (case getitem tup k of
                  Inl e \<Rightarrow> Inl e
                | Inr v \<Rightarrow>
                    (case pick_values values tids (Suc i) rest of
                       Inl e \<Rightarrow> Inl e
                     | Inr vs \<Rightarrow> Inr (v # vs)))))"

text \<open>
  \<^verbatim>\<open>compute_stats(str_names, dataset, stride)\<close>: the calls made to the dataset, and
  the list returned or the error raised.
\<close>

definition compute_stats ::
  "string list \<Rightarrow> dataset \<Rightarrow> pyval \<Rightarrow> statistics_call list \<times> (error + pyval list)" where
  "compute_stats str_names dataset stride =
     (case parse_names str_names no_stats of
        Inl e \<Rightarrow> ([], Inl e)
      | Inr st \<Rightarrow>
          (case dataset (stat_fields st) (stat_modes st) stride of
             Inl msg \<Rightarrow> ([(stat_fields st, stat_modes st, stride)], Inl (DatasetError msg))
           | Inr values \<Rightarrow>
               ([(stat_fields st, stat_modes st, stride)],
                pick_values values (tuple_ids st) 0 (ids st))))"

subsection \<open>The model, the configuration and the rescaling wrapper\<close>

text \<open>
  The keys of \<^verbatim>\<open>AtomicDataDict\<close> the file names; \<^verbatim>\<open>model.irreps_out\<close> is read
  only through \<^verbatim>\<open>k in model.irreps_out\<close>, so the model is the list of its output keys.
\<close>

datatype field_key = TOTAL_ENERGY_KEY | PER_ATOM_ENERGY_KEY | FORCE_KEY | OtherKey string

record graph_model =
  irreps_out :: "field_key list"

type_synonym config = "string \<rightharpoonup> pyval"

text \<open>\<^verbatim>\<open>config.get(key, default)\<close>.\<close>

definition config_get :: "config \<Rightarrow> string \<Rightarrow> pyval \<Rightarrow> pyval" where
  "config_get config key dflt = (case config key of None \<Rightarrow> dflt | Some v \<Rightarrow> v)"

text \<open>\<^verbatim>\<open>config.dataset_statistics_stride\<close>: attribute access, which raises when the option is not set.\<close>

definition config_attr :: "config \<Rightarrow> string \<Rightarrow> error + pyval" where
  "config_attr config key = (case config key of None \<Rightarrow> Inl (AttributeError key) | Some v \<Rightarrow> Inr v)"

text \<open>The keyword arguments \<^verbatim>\<open>RescaleOutput\<close> is built from.\<close>

record rescale_output =
  wrapped :: graph_model
  scale_keys :: "field_key list"
  scale_by :: pyval
  shift_keys :: "field_key list"
  shift_by :: pyval
  trainable_global_rescale_shift :: pyval
  trainable_global_rescale_scale :: pyval

definition is_float :: "pyval \<Rightarrow> bool" where
  "is_float v = (case v of PFloat x \<Rightarrow> True | _ \<Rightarrow> False)"

definition is_list :: "pyval \<Rightarrow> bool" where
  "is_list v = (case v of PList xs \<Rightarrow> True | _ \<Rightarrow> False)"

definition is_tensor :: "pyval \<Rightarrow> bool" where
  "is_tensor v = (case v of PTensor xs \<Rightarrow> True | _ \<Rightarrow> False)"

text \<open>
  The loop \<^verbatim>\<open>for value in [...]\<close> of both configurators (lines 85 to 96 and 183 to
  195). A string is appended to \<^verbatim>\<open>str_names\<close>; otherwise the value passes when
  \<^verbatim>\<open>global_scale is None\<close> (the test is on \<^verbatim>\<open>global_scale\<close>, not on the loop's
  value) or one of the \<^verbatim>\<open>isinstance\<close> tests holds, and the error prints
  \<^verbatim>\<open>global_scale\<close>. The two loops differ in their \<^verbatim>\<open>isinstance\<close> tests only,
  which are the parameter \<open>valid\<close>.
\<close>

fun collect_str_names ::
  "(pyval \<Rightarrow> bool) \<Rightarrow> pyval \<Rightarrow> pyval list \<Rightarrow> string list \<Rightarrow> error + string list" where
  "collect_str_names valid global_scale [] str_names = Inr str_names"
| "collect_str_names valid global_scale (v # vs) str_names =
     (case v of
        PStr s \<Rightarrow> collect_str_names valid global_scale vs (str_names @ [s])
      | _ \<Rightarrow>
          (if global_scale = PNone \<or> valid v
             then collect_str_names valid global_scale vs str_names
           else Inl (InvalidScaleSourceType global_scale)))"

definition global_valid :: "pyval \<Rightarrow> bool" where
  "global_valid v = (is_float v \<or> is_tensor v)"

definition per_species_valid :: "pyval \<Rightarrow> bool" where
  "per_species_valid v = (is_float v \<or> is_list v \<or> is_tensor v)"

text \<open>
  \<^verbatim>\<open>if isinstance(x, str): x = computed_stats[str_names.index(x)]\<close>. The loop above
  has put every string source into \<^verbatim>\<open>str_names\<close>, so \<^verbatim>\<open>index\<close> finds it.
\<close>

definition substitute :: "string list \<Rightarrow> pyval list \<Rightarrow> pyval \<Rightarrow> error + pyval" where
  "substitute str_names computed_stats x =
     (case x of
        PStr s \<Rightarrow> getitem computed_stats (index str_names s)
      | _ \<Rightarrow> Inr x)"

text \<open>
  The literal \<^verbatim>\<open>1e-6\<close> is the double nearest to one millionth, which is
  \<^verbatim>\<open>4722366482869645 / 2^72\<close>, a little below one millionth.
\<close>

definition RESCALE_THRESHOLD :: real where
  "RESCALE_THRESHOLD = 4722366482869645 / 2 ^ 72"

subsection \<open>RescaleEnergyEtc\<close>

text \<open>
  Lines 84 to 108: the sources are checked, the statistics computed and substituted.
  The result is the pair \<^verbatim>\<open>(global_scale, global_shift)\<close> after substitution.
\<close>

definition global_statistics ::
  "config \<Rightarrow> dataset \<Rightarrow> pyval \<Rightarrow> pyval \<Rightarrow> statistics_call list \<times> (error + pyval \<times> pyval)" where
  "global_statistics config dataset global_scale global_shift =
     (case collect_str_names global_valid global_scale [global_scale, global_shift] [] of
        Inl e \<Rightarrow> ([], Inl e)
      | Inr str_names \<Rightarrow>
          (case config_attr config ''dataset_statistics_stride'' of
             Inl e \<Rightarrow> ([], Inl e)
           | Inr stride \<Rightarrow>
               (case compute_stats str_names dataset stride of
                  (calls, Inl e) \<Rightarrow> (calls, Inl e)
                | (calls, Inr computed_stats) \<Rightarrow>
                    (case substitute str_names computed_stats global_scale of
                       Inl e \<Rightarrow> (calls, Inl e)
                     | Inr scale \<Rightarrow>
                         (case substitute str_names computed_stats global_shift of
                            Inl e \<Rightarrow> (calls, Inl e)
                          | Inr shift \<Rightarrow> (calls, Inr (scale, shift)))))))"

text \<open>Lines 127 to 149: the wrapper's arguments.\<close>

definition build_output :: "graph_model \<Rightarrow> config \<Rightarrow> pyval \<Rightarrow> pyval \<Rightarrow> rescale_output" where
  "build_output model config global_scale global_shift =
     \<lparr>wrapped = model,
      scale_keys =
        filter (\<lambda>k. k \<in> set (irreps_out model)) [TOTAL_ENERGY_KEY, PER_ATOM_ENERGY_KEY, FORCE_KEY],
      scale_by = global_scale,
      shift_keys = filter (\<lambda>k. k \<in> set (irreps_out model)) [TOTAL_ENERGY_KEY],
      shift_by = global_shift,
      trainable_global_rescale_shift =
        config_get config ''trainable_global_rescale_shift'' (PBool False),
      trainable_global_rescale_scale =
        config_get config ''trainable_global_rescale_scale'' (PBool False)\<rparr>"

text \<open>Lines 110 to 114: the threshold on a \<^verbatim>\<open>float\<close> scale.\<close>

definition check_threshold :: "pyval \<Rightarrow> error option" where
  "check_threshold global_scale =
     (case global_scale of
        PFloat x \<Rightarrow> (if x < RESCALE_THRESHOLD then Some (DegenerateScaleError x) else None)
      | _ \<Rightarrow> None)"

definition RescaleEnergyEtc ::
  "graph_model \<Rightarrow> config \<Rightarrow> dataset \<Rightarrow> bool \<Rightarrow> statistics_call list \<times> (error + rescale_output)" where
  "RescaleEnergyEtc model config dataset initialize =
     (let global_scale =
            config_get config ''global_rescale_scale''
              (PStr (if FORCE_KEY \<in> set (irreps_out model)
                       then ''dataset_force_rms'' else ''dataset_energy_std''));
          global_shift = config_get config ''global_rescale_shift'' (PStr ''dataset_energy_mean'')
      in if initialize then
           (case global_statistics config dataset global_scale global_shift of
              (calls, Inl e) \<Rightarrow> (calls, Inl e)
            | (calls, Inr (scale, shift)) \<Rightarrow>
                (case check_threshold scale of
                   Some e \<Rightarrow> (calls, Inl e)
                 | None \<Rightarrow> (calls, Inr (build_output model config scale shift))))
         else
           (let shift = (if global_shift = PNone then global_shift else PFloat 0);
                scale = (if global_scale = PNone then global_scale else PFloat 1)
            in ([], Inr (build_output model config scale shift))))"

subsection \<open>PerSpecieRescale\<close>

text \<open>
  \<^verbatim>\<open>scales /= global_scale\<close> is the arithmetic of \<^verbatim>\<open>float\<close> and of
  \<^verbatim>\<open>torch.Tensor\<close>, or a \<^verbatim>\<open>TypeError\<close>; torch is no part of the repository, so the
  operator is a parameter, returning the quotient or the message of what it raises.
\<close>

type_synonym itruediv = "pyval \<Rightarrow> pyval \<Rightarrow> string + pyval"

text \<open>
  What the function leaves: the local variables at the end, and the arguments of
  \<^verbatim>\<open>insert_from_parameters\<close> (whether the target is \<^verbatim>\<open>model.func\<close>, the shared
  parameters, and \<^verbatim>\<open>params\<close>).
\<close>

record per_species_output =
  final_scales :: pyval
  final_shifts :: pyval
  final_global_scale :: pyval
  insert_into_func :: bool
  shared_params :: config
  params :: "(string \<times> field_key) list"

text \<open>Lines 182 to 212: the triple \<^verbatim>\<open>(scales, shifts, global_scale)\<close> they leave.\<close>

definition per_species_statistics ::
  "config \<Rightarrow> dataset \<Rightarrow> itruediv \<Rightarrow> pyval \<Rightarrow> pyval \<Rightarrow> pyval \<Rightarrow>
     statistics_call list \<times> (error + pyval \<times> pyval \<times> pyval)" where
  "per_species_statistics config dataset truediv scales shifts global_scale =
     (case collect_str_names per_species_valid global_scale [scales, shifts, global_scale] [] of
        Inl e \<Rightarrow> ([], Inl e)
      | Inr str_names \<Rightarrow>
          (case config_attr config ''dataset_statistics_stride'' of
             Inl e \<Rightarrow> ([], Inl e)
           | Inr stride \<Rightarrow>
               (case compute_stats str_names dataset stride of
                  (calls, Inl e) \<Rightarrow> (calls, Inl e)
                | (calls, Inr computed_stats) \<Rightarrow>
                    (case substitute str_names computed_stats scales of
                       Inl e \<Rightarrow> (calls, Inl e)
                     | Inr scales1 \<Rightarrow>
                         (case substitute str_names computed_stats shifts of
                            Inl e \<Rightarrow> (calls, Inl e)
                          | Inr shifts1 \<Rightarrow>
                              (case substitute str_names computed_stats global_scale of
                                 Inl e \<Rightarrow> (calls, Inl e)
                               | Inr global_scale1 \<Rightarrow>
                                   (if global_scale1 = PNone
                                      then (calls, Inr (scales1, shifts1, global_scale1))
                                    else (case truediv scales1 global_scale1 of
                                            Inl msg \<Rightarrow> (calls, Inl (DivisionError msg))
                                          | Inr q \<Rightarrow> (calls, Inr (q, shifts1, global_scale1))))))))))"

text \<open>
  On a \<^verbatim>\<open>torch.Tensor\<close> the statement \<^verbatim>\<open>scales /= global_scale\<close> divides in place.
  When \<^verbatim>\<open>scales\<close> is the tensor the configuration holds (its source was no request
  string), the configuration holds the quotient afterwards, and that configuration is what
  \<^verbatim>\<open>insert_from_parameters\<close> receives. A \<^verbatim>\<open>float\<close> is immutable, and a value
  resolved from a request is no object of the configuration. Values under different keys
  are taken to be different objects.
\<close>

definition config_after_division :: "config \<Rightarrow> string \<Rightarrow> pyval \<Rightarrow> pyval \<Rightarrow> pyval \<Rightarrow> config" where
  "config_after_division config key scales scales1 global_scale1 =
     (if is_tensor scales \<and> global_scale1 \<noteq> PNone then config(key \<mapsto> scales1) else config)"

definition PerSpecieRescale ::
  "graph_model \<Rightarrow> config \<Rightarrow> dataset \<Rightarrow> itruediv \<Rightarrow> bool \<Rightarrow>
     statistics_call list \<times> (error + per_species_output)" where
  "PerSpecieRescale model config dataset truediv initialize =
     (let module_prefix = ''PerSpeciesScaleShift_'';
          force_training = (FORCE_KEY \<in> set (irreps_out model));
          global_scale =
            config_get config ''global_rescale_scale''
              (PStr (if force_training then ''dataset_force_rms'' else ''dataset_energy_std''));
          global_shift = config_get config ''global_rescale_shift'' PNone;
          scales = config_get config (module_prefix @ ''scales'') PNone;
          shifts = config_get config (module_prefix @ ''shifts'') PNone;
          finish = (\<lambda>config scales shifts global_scale.
            \<lparr>final_scales = scales, final_shifts = shifts, final_global_scale = global_scale,
             insert_into_func = force_training, shared_params = config,
             params = [(''field'', PER_ATOM_ENERGY_KEY), (''out_field'', PER_ATOM_ENERGY_KEY)]\<rparr>)
      in if global_shift = PNone then
           (if initialize then
              (case per_species_statistics config dataset truediv scales shifts global_scale of
                 (calls, Inl e) \<Rightarrow> (calls, Inl e)
               | (calls, Inr (scales1, shifts1, global_scale1)) \<Rightarrow>
                   (calls,
                    Inr (finish
                      (config_after_division config (module_prefix @ ''scales'') scales scales1
                         global_scale1)
                      scales1 shifts1 global_scale1)))
            else
              (let scales1 = (if scales = PNone then scales else PFloat 1);
                   shifts1 = (if shifts = PNone then shifts else PFloat 1)
               in ([], Inr (finish config scales1 shifts1 global_scale))))
         else ([], Inl ConflictingShiftConfigError))"

subsection \<open>Notions of the specification, and sample inputs\<close>

text \<open>The trailing underscore-delimited token of a request string, as it is written.\<close>

definition trailing_token :: "string \<Rightarrow> string" where
  "trailing_token name = last (split CHR ''_'' name)"

text \<open>
  The values of the locals \<^verbatim>\<open>global_scale\<close> (both configurators) and
  \<^verbatim>\<open>global_shift\<close> (\<^verbatim>\<open>RescaleEnergyEtc\<close>) after the \<^verbatim>\<open>config.get\<close> lines.
\<close>

definition global_scale_source :: "graph_model \<Rightarrow> config \<Rightarrow> pyval" where
  "global_scale_source model config =
     config_get config ''global_rescale_scale''
       (PStr (if FORCE_KEY \<in> set (irreps_out model)
                then ''dataset_force_rms'' else ''dataset_energy_std''))"

definition global_shift_source :: "config \<Rightarrow> pyval" where
  "global_shift_source config =
     config_get config ''global_rescale_shift'' (PStr ''dataset_energy_mean'')"

text \<open>The errors the resolver can raise, and those raised before the threshold test.\<close>

definition raised_by_compute_stats :: "error \<Rightarrow> bool" where
  "raised_by_compute_stats e =
     (case e of
        UnsupportedStatisticKind stat \<Rightarrow> True
      | KeyError k \<Rightarrow> True
      | IndexError \<Rightarrow> True
      | DatasetError msg \<Rightarrow> True
      | _ \<Rightarrow> False)"

definition raised_while_resolving :: "error \<Rightarrow> bool" where
  "raised_while_resolving e =
     (case e of
        DegenerateScaleError x \<Rightarrow> False
      | ConflictingShiftConfigError \<Rightarrow> False
      | _ \<Rightarrow> True)"

text \<open>A dataset that returns the same tuples whatever is asked.\<close>

definition constant_dataset :: "pyval list list \<Rightarrow> dataset" where
  "constant_dataset vals fs ms stride = Inr vals"

text \<open>A dataset whose first tuple is a hundred-millionth and whose second is \<open>(0, 1)\<close>.\<close>

definition rms_dataset :: dataset where
  "rms_dataset fs ms stride = Inr [[PFloat (1 / 10 ^ 8)], [PFloat 0, PFloat 1]]"

definition energy_model :: graph_model where
  "energy_model = \<lparr>irreps_out = [TOTAL_ENERGY_KEY, PER_ATOM_ENERGY_KEY]\<rparr>"

definition force_model :: graph_model where
  "force_model = \<lparr>irreps_out = [TOTAL_ENERGY_KEY, PER_ATOM_ENERGY_KEY, FORCE_KEY]\<rparr>"

text \<open>
  Configurations: every default; literal sources; the shift disabled; a global shift; the
  scale disabled and a list as shift; literal per-species sources; a scale request with the
  shift disabled and no stride; per-species sources with no stride.
\<close>

definition default_config :: config where
  "default_config = map_of [(''dataset_statistics_stride'', PInt 1)]"

definition literal_config :: config where
  "literal_config = map_of
     [(''global_rescale_scale'', PFloat 1), (''global_rescale_shift'', PFloat 0),
      (''dataset_statistics_stride'', PInt 1)]"

definition shift_off_config :: config where
  "shift_off_config = map_of
     [(''global_rescale_shift'', PNone), (''dataset_statistics_stride'', PInt 1)]"

definition global_shift_config :: config where
  "global_shift_config = map_of
     [(''global_rescale_shift'', PFloat 1), (''dataset_statistics_stride'', PInt 1)]"

definition list_shift_config :: config where
  "list_shift_config = map_of
     [(''global_rescale_scale'', PNone), (''global_rescale_shift'', PList [PFloat 1]),
      (''dataset_statistics_stride'', PInt 1)]"

definition per_species_literal_config :: config where
  "per_species_literal_config = map_of
     [(''PerSpeciesScaleShift_scales'', PFloat 2), (''PerSpeciesScaleShift_shifts'', PFloat 0),
      (''global_rescale_scale'', PFloat 1), (''dataset_statistics_stride'', PInt 1)]"

definition energy_std_config :: config where
  "energy_std_config = map_of
     [(''global_rescale_scale'', PStr ''dataset_energy_std''), (''global_rescale_shift'', PNone)]"

definition placeholder_config :: config where
  "placeholder_config = map_of
     [(''PerSpeciesScaleShift_scales'', PStr ''dataset_per_species_energy_std''),
      (''PerSpeciesScaleShift_shifts'', PList [PFloat 2, PFloat 3])]"

text \<open>A division that always raises.\<close>

definition failing_truediv :: itruediv where
  "failing_truediv a b = Inl ''unsupported operand type(s) for /=''"

text \<open>
  A division for the samples: a tensor by a float, entry by entry (the quotient torch
  gives when the divisor is not zero); anything else raises.
\<close>

fun sample_truediv :: itruediv where
  "sample_truediv (PTensor xs) (PFloat d) = Inr (PTensor (map (\<lambda>x. x / d) xs))"
| "sample_truediv a b = Inl ''unsupported operand type(s) for /=''"

text \<open>
  Per-species configurations whose scales are a request string, and a tensor; a dataset
  of one slot of two tensors; datasets whose first tuple holds the integer zero, and a
  one-entry tensor of a hundred-millionth.
\<close>

definition request_config :: config where
  "request_config = map_of
     [(''PerSpeciesScaleShift_scales'', PStr ''dataset_per_species_energy_std''),
      (''PerSpeciesScaleShift_shifts'', PStr ''dataset_per_species_energy_mean''),
      (''global_rescale_scale'', PFloat 2), (''dataset_statistics_stride'', PInt 1)]"

definition tensor_config :: config where
  "tensor_config = map_of
     [(''PerSpeciesScaleShift_scales'', PTensor [2, 4]),
      (''PerSpeciesScaleShift_shifts'', PFloat 0),
      (''global_rescale_scale'', PFloat 2), (''dataset_statistics_stride'', PInt 1)]"

definition species_dataset :: dataset where
  "species_dataset fs ms stride = Inr [[PTensor [1, 3], PTensor [2, 4]]]"

definition zero_scale_dataset :: dataset where
  "zero_scale_dataset fs ms stride = Inr [[PInt 0], [PFloat 0, PFloat 1]]"

definition tensor_scale_dataset :: dataset where
  "tensor_scale_dataset fs ms stride = Inr [[PTensor [1 / 10 ^ 8]], [PFloat 0, PFloat 1]]"

section \<open>Properties of the resolver\<close>

subsection \<open>Splitting and prefixes\<close>

lemmas parse_defs = Let_def parse_name_def record_name_def no_stats_def startswith_def
  tuple_id_map_def

lemmas config_defs = config_get_def config_attr_def default_config_def literal_config_def
  energy_model_def force_model_def

lemma split_not_Nil: "split c s \<noteq> []"
  by (induction s) (auto split: list.splits)

lemma split_no_sep: "c \<notin> set s \<Longrightarrow> split c s = [s]"
  by (induction s) auto

lemma split_two: "c \<in> set s \<Longrightarrow> \<exists>t u us. split c s = t # u # us"
proof (induction s)
  case Nil
  then show ?case by simp
next
  case (Cons x xs)
  show ?case
  proof (cases "x = c")
    case True
    then show ?thesis using split_not_Nil [of c xs] by (cases "split c xs") auto
  next
    case False
    with Cons.prems have "c \<in> set xs" by simp
    from Cons.IH [OF this] obtain t u us where "split c xs = t # u # us" by blast
    with False show ?thesis by simp
  qed
qed

text \<open>The last token of \<open>x # xs\<close> is that of \<open>xs\<close>, unless \<open>x # xs\<close> is one token.\<close>

lemma last_split_Cons:
  "last (split c (x # xs)) = (if x = c \<or> c \<in> set xs then last (split c xs) else x # xs)"
proof (cases "x = c")
  case True
  then show ?thesis using split_not_Nil [of c xs] by simp
next
  case False
  show ?thesis
  proof (cases "c \<in> set xs")
    case True
    from split_two [OF this] obtain t u us where "split c xs = t # u # us" by blast
    with False True show ?thesis by simp
  next
    case False
    with \<open>x \<noteq> c\<close> show ?thesis by (simp add: split_no_sep)
  qed
qed

lemma last_split_append: "last (split c (p @ c # r)) = last (split c r)"
proof (induction p)
  case Nil
  show ?case using split_not_Nil [of c r] by simp
next
  case (Cons x p)
  have "last (split c (x # (p @ c # r))) = last (split c (p @ c # r))"
    by (subst last_split_Cons) simp
  with Cons show ?case by simp
qed

lemma startswith_decomp: "startswith s p \<Longrightarrow> s = p @ drop (length p) s"
  by (metis append_take_drop_id startswith_def)

text \<open>Removing a prefix that ends with the separator keeps the trailing token.\<close>

lemma last_split_drop:
  assumes "startswith s (q @ [c])"
  shows "last (split c (drop (length (q @ [c])) s)) = last (split c s)"
proof -
  have "s = q @ c # drop (length (q @ [c])) s"
    using startswith_decomp [OF assms] by simp
  then show ?thesis
    using last_split_append [of c q "drop (length (q @ [c])) s"] by simp
qed

lemma drop_dataset:
  "startswith s ''dataset_'' \<Longrightarrow> trailing_token (drop (length ''dataset_'') s) = trailing_token s"
  using last_split_drop [of s "''dataset''" "CHR ''_''"] by (simp add: trailing_token_def)

lemma drop_per_species:
  "startswith s ''per_species_'' \<Longrightarrow>
   trailing_token (drop (length ''per_species_'') s) = trailing_token s"
  using last_split_drop [of s "''per_species''" "CHR ''_''"] by (simp add: trailing_token_def)

lemma drop_per_atom:
  "startswith s ''per_atom_'' \<Longrightarrow> trailing_token (drop (length ''per_atom_'') s) = trailing_token s"
  using last_split_drop [of s "''per_atom''" "CHR ''_''"] by (simp add: trailing_token_def)

subsection \<open>What one name parses to\<close>

lemma parse_name_bad:
  assumes "trailing_token name \<notin> {''mean'', ''std'', ''rms''}"
  shows "parse_name name = Inl (UnsupportedStatisticKind (trailing_token name))"
  using assms drop_dataset [of name] drop_per_species [of name] drop_per_atom [of name]
    drop_per_species [of "drop (length ''dataset_'') name"]
    drop_per_atom [of "drop (length ''dataset_'') name"]
  unfolding parse_name_def Let_def
  by (auto simp: trailing_token_def)

lemma parse_name_good:
  assumes "parse_name name = Inr (stat, field, mode, str)"
  shows "stat \<in> {''mean'', ''std'', ''rms''}"
  using assms unfolding parse_name_def Let_def
  by (auto split: if_splits prod.splits)

lemma parse_name_Inl:
  assumes "parse_name name = Inl e"
  shows "\<exists>stat. e = UnsupportedStatisticKind stat"
  using assms unfolding parse_name_def Let_def
  by (auto split: if_splits prod.splits)

lemma record_name_good:
  assumes "stat \<in> {''mean'', ''std'', ''rms''}"
  shows "\<exists>st'. record_name st (stat, field, mode, str) = Inr st'"
  using assms by (auto simp: record_name_def tuple_id_map_def Let_def)

lemma parse_names_bad:
  assumes "\<exists>name \<in> set str_names. trailing_token name \<notin> {''mean'', ''std'', ''rms''}"
  shows "\<exists>stat. parse_names str_names st = Inl (UnsupportedStatisticKind stat)"
  using assms
proof (induction str_names arbitrary: st)
  case Nil
  then show ?case by simp
next
  case (Cons name names)
  show ?case
  proof (cases "parse_name name")
    case (Inl e)
    with parse_name_Inl [OF Inl] show ?thesis by auto
  next
    case (Inr p)
    obtain stat field mode str where p: "p = (stat, field, mode, str)"
      by (cases p) auto
    from Inr p have good: "stat \<in> {''mean'', ''std'', ''rms''}"
      using parse_name_good by blast
    have "trailing_token name \<in> {''mean'', ''std'', ''rms''}"
    proof (rule ccontr)
      assume "trailing_token name \<notin> {''mean'', ''std'', ''rms''}"
      from parse_name_bad [OF this] Inr show False by simp
    qed
    with Cons.prems
    have rest: "\<exists>n \<in> set names. trailing_token n \<notin> {''mean'', ''std'', ''rms''}"
      by auto
    from record_name_good [OF good] obtain st' where
      "record_name st (stat, field, mode, str) = Inr st'" by blast
    with Inr p Cons.IH [OF rest, of st'] show ?thesis by simp
  qed
qed

subsection \<open>The errors of the resolver\<close>

lemma parse_names_errors:
  "parse_names str_names st = Inl e \<Longrightarrow> raised_by_compute_stats e"
proof (induction str_names arbitrary: st)
  case Nil
  then show ?case by simp
next
  case (Cons name names)
  show ?case
  proof (cases "parse_name name")
    case (Inl e')
    with Cons.prems parse_name_Inl [OF Inl] show ?thesis
      by (auto simp: raised_by_compute_stats_def)
  next
    case (Inr p)
    show ?thesis
    proof (cases "record_name st p")
      case (Inl e')
      with Inr Cons.prems have "e = e'" by simp
      with Inl show ?thesis
        by (auto simp: record_name_def Let_def raised_by_compute_stats_def
            split: prod.splits option.splits)
    next
      case (Inr st')
      with \<open>parse_name name = Inr p\<close> Cons.prems Cons.IH [of st'] show ?thesis by simp
    qed
  qed
qed

lemma pick_values_errors:
  "pick_values vals tids i idxs = Inl e \<Longrightarrow> e = IndexError"
  by (induction idxs arbitrary: i) (auto simp: getitem_def split: sum.splits if_splits)

lemma compute_stats_errors:
  assumes "compute_stats str_names dataset stride = (calls, Inl e)"
  shows "raised_by_compute_stats e"
proof (cases "parse_names str_names no_stats")
  case (Inl e')
  with assms have "e = e'" by (simp add: compute_stats_def)
  with parse_names_errors [OF Inl] show ?thesis by simp
next
  case (Inr st)
  show ?thesis
  proof (cases "dataset (stat_fields st) (stat_modes st) stride")
    case (Inl msg)
    with Inr assms have "e = DatasetError msg" by (simp add: compute_stats_def)
    then show ?thesis by (simp add: raised_by_compute_stats_def)
  next
    case (Inr vals)
    with \<open>parse_names str_names no_stats = Inr st\<close> assms
    have "pick_values vals (tuple_ids st) 0 (ids st) = Inl e"
      by (simp add: compute_stats_def)
    from pick_values_errors [OF this] show ?thesis by (simp add: raised_by_compute_stats_def)
  qed
qed

lemma compute_stats_Nil:
  "compute_stats [] dataset stride =
     ([([], [], stride)],
      (case dataset [] [] stride of Inl msg \<Rightarrow> Inl (DatasetError msg) | Inr vals \<Rightarrow> Inr []))"
  by (simp add: compute_stats_def no_stats_def split: sum.splits)

subsection \<open>Claims about the resolver\<close>

lemma parse_mean_std:
  "parse_names [''energy_mean'', ''energy_std''] no_stats =
     Inr \<lparr>stat_modes = [''mean_std''], stat_fields = [''energy''],
          stat_strs = [''energymean_std''], ids = [0, 0], tuple_ids = [0, 1]\<rparr>"
  by (simp add: parse_defs)

text \<open>
  C4. The requests \<^verbatim>\<open>["energy_mean", "energy_std"]\<close> make one slot, of field
  \<^verbatim>\<open>energy\<close> and mode \<^verbatim>\<open>mean_std\<close>; the dataset is called once, with that slot;
  and when it returns a first tuple of at least two entries, the two values returned are
  entries 0 and 1 of that tuple.
\<close>

theorem mean_std_share_one_slot:
  "parse_names [''energy_mean'', ''energy_std''] no_stats =
     Inr \<lparr>stat_modes = [''mean_std''], stat_fields = [''energy''],
          stat_strs = [''energymean_std''], ids = [0, 0], tuple_ids = [0, 1]\<rparr> \<and>
   fst (compute_stats [''energy_mean'', ''energy_std''] dataset stride) =
     [([''energy''], [''mean_std''], stride)] \<and>
   (dataset [''energy''] [''mean_std''] stride = Inr vals \<and> 0 < length vals \<and>
      2 \<le> length (vals ! 0) \<longrightarrow>
    snd (compute_stats [''energy_mean'', ''energy_std''] dataset stride) =
      Inr [vals ! 0 ! 0, vals ! 0 ! 1])"
proof -
  have calls: "fst (compute_stats [''energy_mean'', ''energy_std''] dataset stride) =
     [([''energy''], [''mean_std''], stride)]"
    unfolding compute_stats_def parse_mean_std by (simp split: sum.splits)
  have picked: "snd (compute_stats [''energy_mean'', ''energy_std''] dataset stride) =
      Inr [vals ! 0 ! 0, vals ! 0 ! 1]"
    if "dataset [''energy''] [''mean_std''] stride = Inr vals" "0 < length vals"
      "2 \<le> length (vals ! 0)"
    using that unfolding compute_stats_def parse_mean_std by (auto simp: getitem_def)
  from calls picked parse_mean_std show ?thesis by blast
qed

theorem mean_std_share_one_slot_witness:
  "fst (compute_stats [''energy_mean'', ''energy_std'']
          (constant_dataset [[PFloat 3, PFloat 2]]) (PInt 1)) =
     [([''energy''], [''mean_std''], PInt 1)] \<and>
   snd (compute_stats [''energy_mean'', ''energy_std'']
          (constant_dataset [[PFloat 3, PFloat 2]]) (PInt 1)) =
     Inr [PFloat 3, PFloat 2]"
  using mean_std_share_one_slot
    [of "constant_dataset [[PFloat 3, PFloat 2]]" "PInt 1" "[[PFloat 3, PFloat 2]]"]
  by (simp add: constant_dataset_def)

text \<open>
  C5. When some request of the list has a trailing token that is not \<^verbatim>\<open>mean\<close>,
  \<^verbatim>\<open>std\<close> or \<^verbatim>\<open>rms\<close>, the resolver raises the error of an unsupported kind and
  has not called the dataset.
\<close>

theorem unknown_kind_fails_before_dataset:
  assumes "\<exists>name \<in> set str_names. trailing_token name \<notin> {''mean'', ''std'', ''rms''}"
  shows "\<exists>stat. compute_stats str_names dataset stride =
           ([], Inl (UnsupportedStatisticKind stat))"
proof -
  from parse_names_bad [OF assms, of no_stats] obtain stat where
    "parse_names str_names no_stats = Inl (UnsupportedStatisticKind stat)" by blast
  then show ?thesis by (simp add: compute_stats_def)
qed

theorem unknown_kind_fails_before_dataset_witness:
  "\<exists>stat. compute_stats [''energy_mean'', ''energy_foo''] rms_dataset (PInt 1) =
     ([], Inl (UnsupportedStatisticKind stat))"
  using unknown_kind_fails_before_dataset
    [of "[''energy_mean'', ''energy_foo'']" rms_dataset "PInt 1"]
  by (simp add: trailing_token_def)

text \<open>
  C9. \<^verbatim>\<open>per_species_energy_mean\<close> and \<^verbatim>\<open>energy_mean\<close> have the same field
  \<^verbatim>\<open>energy\<close> and different composite keys, and a list holding both, in either
  order, gives them the slots 0 and 1.
\<close>

theorem granularity_isolation:
  "parse_name ''per_species_energy_mean'' =
     Inr (''mean'', ''energy'', ''per_species_mean_std'', ''energyper_species_mean_std'') \<and>
   parse_name ''energy_mean'' =
     Inr (''mean'', ''energy'', ''mean_std'', ''energymean_std'') \<and>
   parse_names [''per_species_energy_mean'', ''energy_mean''] no_stats =
     Inr \<lparr>stat_modes = [''per_species_mean_std'', ''mean_std''],
          stat_fields = [''energy'', ''energy''],
          stat_strs = [''energyper_species_mean_std'', ''energymean_std''],
          ids = [0, 1], tuple_ids = [0, 0]\<rparr> \<and>
   parse_names [''energy_mean'', ''per_species_energy_mean''] no_stats =
     Inr \<lparr>stat_modes = [''mean_std'', ''per_species_mean_std''],
          stat_fields = [''energy'', ''energy''],
          stat_strs = [''energymean_std'', ''energyper_species_mean_std''],
          ids = [0, 1], tuple_ids = [0, 0]\<rparr>"
  by (simp add: parse_defs)

lemma parse_collision:
  "parse_names [''per_species_x_mean'', ''xper_species__mean''] no_stats =
     Inr \<lparr>stat_modes = [''per_species_mean_std''], stat_fields = [''x''],
          stat_strs = [''xper_species_mean_std''], ids = [0, 0], tuple_ids = [0, 0]\<rparr>"
  by (simp add: parse_defs)

text \<open>
  C10. The composite key does not determine the field and the granularity:
  \<^verbatim>\<open>per_species_x_mean\<close> (field \<^verbatim>\<open>x\<close>, per species) and \<^verbatim>\<open>xper_species__mean\<close>
  (field \<^verbatim>\<open>xper_species_\<close>, global) have the same key, so a list holding both makes
  one slot, that of the first, the dataset is asked for that slot only, and the second
  request receives the first one's value.
\<close>

theorem composite_key_collision:
  "parse_name ''per_species_x_mean'' =
     Inr (''mean'', ''x'', ''per_species_mean_std'', ''xper_species_mean_std'') \<and>
   parse_name ''xper_species__mean'' =
     Inr (''mean'', ''xper_species_'', ''mean_std'', ''xper_species_mean_std'') \<and>
   parse_names [''per_species_x_mean'', ''xper_species__mean''] no_stats =
     Inr \<lparr>stat_modes = [''per_species_mean_std''], stat_fields = [''x''],
          stat_strs = [''xper_species_mean_std''], ids = [0, 0], tuple_ids = [0, 0]\<rparr> \<and>
   fst (compute_stats [''per_species_x_mean'', ''xper_species__mean''] dataset stride) =
     [([''x''], [''per_species_mean_std''], stride)] \<and>
   (dataset [''x''] [''per_species_mean_std''] stride = Inr vals \<and> 0 < length vals \<and>
      0 < length (vals ! 0) \<longrightarrow>
    snd (compute_stats [''per_species_x_mean'', ''xper_species__mean''] dataset stride) =
      Inr [vals ! 0 ! 0, vals ! 0 ! 0])"
proof -
  have one: "parse_name ''per_species_x_mean'' =
     Inr (''mean'', ''x'', ''per_species_mean_std'', ''xper_species_mean_std'')"
    by (simp add: parse_defs)
  have two: "parse_name ''xper_species__mean'' =
     Inr (''mean'', ''xper_species_'', ''mean_std'', ''xper_species_mean_std'')"
    by (simp add: parse_defs)
  have calls:
    "fst (compute_stats [''per_species_x_mean'', ''xper_species__mean''] dataset stride) =
       [([''x''], [''per_species_mean_std''], stride)]"
    unfolding compute_stats_def parse_collision by (simp split: sum.splits)
  have picked:
    "snd (compute_stats [''per_species_x_mean'', ''xper_species__mean''] dataset stride) =
       Inr [vals ! 0 ! 0, vals ! 0 ! 0]"
    if "dataset [''x''] [''per_species_mean_std''] stride = Inr vals" "0 < length vals"
      "0 < length (vals ! 0)"
    using that unfolding compute_stats_def parse_collision by (auto simp: getitem_def)
  from one two calls picked parse_collision show ?thesis by blast
qed

theorem composite_key_collision_witness:
  "compute_stats [''per_species_x_mean'', ''xper_species__mean'']
     (constant_dataset [[PFloat 5, PFloat 7]]) (PInt 1) =
   ([([''x''], [''per_species_mean_std''], PInt 1)], Inr [PFloat 5, PFloat 5])"
  using composite_key_collision
    [of "constant_dataset [[PFloat 5, PFloat 7]]" "PInt 1" "[[PFloat 5, PFloat 7]]"]
  by (simp add: constant_dataset_def prod_eq_iff)

text \<open>
  X1. The \<^verbatim>\<open>dataset_\<close> prefix is dropped: \<^verbatim>\<open>dataset_energy_mean\<close> and
  \<^verbatim>\<open>energy_mean\<close> share one slot.
\<close>

theorem dataset_prefix_is_ignored:
  "parse_names [''dataset_energy_mean'', ''energy_mean''] no_stats =
     Inr \<lparr>stat_modes = [''mean_std''], stat_fields = [''energy''],
          stat_strs = [''energymean_std''], ids = [0, 0], tuple_ids = [0, 0]\<rparr>"
  by (simp add: parse_defs)

lemma compute_stats_calls: "length (fst (compute_stats str_names dataset stride)) \<le> 1"
  by (simp add: compute_stats_def split: sum.splits)

lemma record_name_lengths:
  "record_name st p = Inr st' \<Longrightarrow>
   length (ids st') = Suc (length (ids st)) \<and> length (tuple_ids st') = Suc (length (tuple_ids st))"
  by (auto simp: record_name_def Let_def split: prod.splits option.splits if_splits)

lemma parse_names_lengths:
  "parse_names str_names st = Inr st' \<Longrightarrow>
   length (ids st') = length (ids st) + length str_names"
proof (induction str_names arbitrary: st)
  case Nil
  then show ?case by simp
next
  case (Cons name names)
  then show ?case
    by (auto split: sum.splits dest!: record_name_lengths)
qed

lemma pick_values_length:
  "pick_values vals tids i idxs = Inr vs \<Longrightarrow> length vs = length idxs"
  by (induction idxs arbitrary: i vs) (auto split: sum.splits)

text \<open>
  X2. When the resolver returns, it returns one value per request.
\<close>

theorem results_align_with_requests:
  assumes "snd (compute_stats str_names dataset stride) = Inr vs"
  shows "length vs = length str_names"
proof (cases "parse_names str_names no_stats")
  case (Inl e)
  with assms show ?thesis by (simp add: compute_stats_def)
next
  case (Inr st)
  from parse_names_lengths [OF Inr] have len: "length (ids st) = length str_names"
    by (simp add: no_stats_def)
  from Inr assms obtain vals where
    "pick_values vals (tuple_ids st) 0 (ids st) = Inr vs"
    by (auto simp: compute_stats_def split: sum.splits)
  from pick_values_length [OF this] len show ?thesis by simp
qed

theorem results_align_with_requests_witness:
  "length [PFloat 3, PFloat 2] = length [''energy_mean'', ''energy_std'']"
  using results_align_with_requests
    [of "[''energy_mean'', ''energy_std'']" "constant_dataset [[PFloat 3, PFloat 2]]" "PInt 1"
        "[PFloat 3, PFloat 2]"]
  by (simp add: compute_stats_def parse_defs constant_dataset_def getitem_def)

section \<open>Properties of the configurators\<close>

subsection \<open>Errors and calls of the statistics stage\<close>

lemma substitute_errors: "substitute str_names computed x = Inl e \<Longrightarrow> e = IndexError"
  by (auto simp: substitute_def getitem_def split: pyval.splits if_splits)

lemma collect_str_names_errors:
  "collect_str_names valid gs vs acc = Inl e \<Longrightarrow> e = InvalidScaleSourceType gs"
  by (induction vs arbitrary: acc) (auto split: pyval.splits if_splits)

lemma config_attr_errors: "config_attr config key = Inl e \<Longrightarrow> e = AttributeError key"
  by (auto simp: config_attr_def split: option.splits)

lemma raised_by_compute_stats_resolving:
  "raised_by_compute_stats e \<Longrightarrow> raised_while_resolving e"
  by (cases e) (simp_all add: raised_by_compute_stats_def raised_while_resolving_def)

lemma global_statistics_errors:
  assumes "global_statistics config dataset gs gsh = (calls, Inl e)"
  shows "raised_while_resolving e"
proof (cases "collect_str_names global_valid gs [gs, gsh] []")
  case (Inl e')
  with assms have "e = e'" by (simp add: global_statistics_def del: collect_str_names.simps)
  with collect_str_names_errors [OF Inl] show ?thesis by (simp add: raised_while_resolving_def)
next
  case names: (Inr str_names)
  show ?thesis
  proof (cases "config_attr config ''dataset_statistics_stride''")
    case (Inl e')
    with names assms have "e = e'" by (simp add: global_statistics_def del: collect_str_names.simps)
    with config_attr_errors [OF Inl] show ?thesis by (simp add: raised_while_resolving_def)
  next
    case stride: (Inr stride)
    obtain calls' r where cs: "compute_stats str_names dataset stride = (calls', r)"
      by (cases "compute_stats str_names dataset stride") auto
    show ?thesis
    proof (cases r)
      case (Inl e')
      with names stride cs assms have "e = e'"
        by (simp add: global_statistics_def del: collect_str_names.simps)
      with compute_stats_errors [of str_names dataset stride calls' e'] cs Inl show ?thesis
        by (simp add: raised_by_compute_stats_resolving)
    next
      case (Inr computed)
      with names stride cs assms
      have "substitute str_names computed gs = Inl e \<or> substitute str_names computed gsh = Inl e"
        by (simp add: global_statistics_def del: collect_str_names.simps split: sum.splits)
      then have "e = IndexError" using substitute_errors by blast
      then show ?thesis by (simp add: raised_while_resolving_def)
    qed
  qed
qed

lemma RescaleEnergyEtc_init:
  "RescaleEnergyEtc model config dataset True =
     (case global_statistics config dataset (global_scale_source model config)
             (global_shift_source config) of
        (calls, Inl e) \<Rightarrow> (calls, Inl e)
      | (calls, Inr (scale, shift)) \<Rightarrow>
          (case check_threshold scale of
             Some e \<Rightarrow> (calls, Inl e)
           | None \<Rightarrow> (calls, Inr (build_output model config scale shift))))"
  by (simp add: RescaleEnergyEtc_def Let_def global_scale_source_def global_shift_source_def)

lemma check_threshold_Some:
  "check_threshold scale = Some e \<longleftrightarrow>
     (\<exists>x. scale = PFloat x \<and> x < RESCALE_THRESHOLD \<and> e = DegenerateScaleError x)"
  by (auto simp: check_threshold_def split: pyval.splits)

lemma per_species_statistics_errors:
  assumes "per_species_statistics config dataset truediv scales shifts gs = (calls, Inl e)"
  shows "raised_while_resolving e"
proof (cases "collect_str_names per_species_valid gs [scales, shifts, gs] []")
  case (Inl e')
  with assms have "e = e'"
    by (simp add: per_species_statistics_def del: collect_str_names.simps)
  with collect_str_names_errors [OF Inl] show ?thesis by (simp add: raised_while_resolving_def)
next
  case names: (Inr str_names)
  show ?thesis
  proof (cases "config_attr config ''dataset_statistics_stride''")
    case (Inl e')
    with names assms have "e = e'"
      by (simp add: per_species_statistics_def del: collect_str_names.simps)
    with config_attr_errors [OF Inl] show ?thesis by (simp add: raised_while_resolving_def)
  next
    case stride: (Inr stride)
    obtain calls' r where cs: "compute_stats str_names dataset stride = (calls', r)"
      by (cases "compute_stats str_names dataset stride") auto
    show ?thesis
    proof (cases r)
      case (Inl e')
      with names stride cs assms have "e = e'"
        by (simp add: per_species_statistics_def del: collect_str_names.simps)
      with compute_stats_errors [of str_names dataset stride calls' e'] cs Inl show ?thesis
        by (simp add: raised_by_compute_stats_resolving)
    next
      case (Inr computed)
      with names stride cs assms
      have "substitute str_names computed scales = Inl e \<or>
            substitute str_names computed shifts = Inl e \<or>
            substitute str_names computed gs = Inl e \<or> (\<exists>msg. e = DivisionError msg)"
        by (auto simp add: per_species_statistics_def simp del: collect_str_names.simps
            split: sum.splits if_splits)
      then have "e = IndexError \<or> (\<exists>msg. e = DivisionError msg)"
        using substitute_errors by blast
      then show ?thesis by (auto simp: raised_while_resolving_def)
    qed
  qed
qed

lemma PerSpecieRescale_init:
  assumes "config_get config ''global_rescale_shift'' PNone = PNone"
  shows "PerSpecieRescale model config dataset truediv True =
     (case per_species_statistics config dataset truediv
             (config_get config ''PerSpeciesScaleShift_scales'' PNone)
             (config_get config ''PerSpeciesScaleShift_shifts'' PNone)
             (global_scale_source model config) of
        (calls, Inl e) \<Rightarrow> (calls, Inl e)
      | (calls, Inr (scales1, shifts1, global_scale1)) \<Rightarrow>
          (calls, Inr \<lparr>final_scales = scales1, final_shifts = shifts1,
             final_global_scale = global_scale1,
             insert_into_func = (FORCE_KEY \<in> set (irreps_out model)),
             shared_params =
               config_after_division config ''PerSpeciesScaleShift_scales''
                 (config_get config ''PerSpeciesScaleShift_scales'' PNone) scales1 global_scale1,
             params = [(''field'', PER_ATOM_ENERGY_KEY), (''out_field'', PER_ATOM_ENERGY_KEY)]\<rparr>))"
  using assms by (simp add: PerSpecieRescale_def Let_def global_scale_source_def)

lemma fst_RescaleEnergyEtc:
  "fst (RescaleEnergyEtc model config dataset True) =
   fst (global_statistics config dataset (global_scale_source model config)
         (global_shift_source config))"
  by (simp add: RescaleEnergyEtc_init split: prod.splits sum.splits option.splits)

lemma fst_PerSpecieRescale:
  assumes "config_get config ''global_rescale_shift'' PNone = PNone"
  shows "fst (PerSpecieRescale model config dataset truediv True) =
   fst (per_species_statistics config dataset truediv
         (config_get config ''PerSpeciesScaleShift_scales'' PNone)
         (config_get config ''PerSpeciesScaleShift_shifts'' PNone)
         (global_scale_source model config))"
  by (simp add: PerSpecieRescale_init [OF assms] split: prod.splits sum.splits)

lemma global_statistics_calls:
  "length (fst (global_statistics config dataset gs gsh)) \<le> 1"
proof (cases "collect_str_names global_valid gs [gs, gsh] []")
  case (Inl e)
  then show ?thesis by (simp add: global_statistics_def del: collect_str_names.simps)
next
  case names: (Inr str_names)
  show ?thesis
  proof (cases "config_attr config ''dataset_statistics_stride''")
    case (Inl e)
    with names show ?thesis by (simp add: global_statistics_def del: collect_str_names.simps)
  next
    case (Inr stride)
    with names compute_stats_calls [of str_names dataset stride] show ?thesis
      by (auto simp add: global_statistics_def simp del: collect_str_names.simps
          split: prod.splits sum.splits)
  qed
qed

lemma per_species_statistics_calls:
  "length (fst (per_species_statistics config dataset truediv scales shifts gs)) \<le> 1"
proof (cases "collect_str_names per_species_valid gs [scales, shifts, gs] []")
  case (Inl e)
  then show ?thesis by (simp add: per_species_statistics_def del: collect_str_names.simps)
next
  case names: (Inr str_names)
  show ?thesis
  proof (cases "config_attr config ''dataset_statistics_stride''")
    case (Inl e)
    with names show ?thesis
      by (simp add: per_species_statistics_def del: collect_str_names.simps)
  next
    case (Inr stride)
    with names compute_stats_calls [of str_names dataset stride] show ?thesis
      by (auto simp add: per_species_statistics_def simp del: collect_str_names.simps
          split: prod.splits sum.splits)
  qed
qed

lemma rms_statistics:
  "global_statistics default_config rms_dataset (PStr ''dataset_force_rms'') (PStr ''dataset_energy_mean'')
   = ([([''force'', ''energy''], [''rms'', ''mean_std''], PInt 1)], Inr (PFloat (1 / 10 ^ 8), PFloat 0))"
  by (simp add: global_statistics_def config_defs compute_stats_def parse_defs rms_dataset_def
      substitute_def getitem_def global_valid_def is_float_def is_tensor_def)

lemma literal_statistics:
  "global_statistics literal_config (constant_dataset []) (PFloat 1) (PFloat 0) =
     ([([], [], PInt 1)], Inr (PFloat 1, PFloat 0))"
  by (simp add: global_statistics_def config_defs compute_stats_Nil constant_dataset_def
      substitute_def global_valid_def is_float_def is_tensor_def)

lemma zero_scale_statistics:
  "global_statistics default_config zero_scale_dataset (PStr ''dataset_force_rms'')
     (PStr ''dataset_energy_mean'') =
   ([([''force'', ''energy''], [''rms'', ''mean_std''], PInt 1)], Inr (PInt 0, PFloat 0))"
  by (simp add: global_statistics_def config_defs compute_stats_def parse_defs
      zero_scale_dataset_def substitute_def getitem_def global_valid_def is_float_def
      is_tensor_def)

lemma tensor_scale_statistics:
  "global_statistics default_config tensor_scale_dataset (PStr ''dataset_force_rms'')
     (PStr ''dataset_energy_mean'') =
   ([([''force'', ''energy''], [''rms'', ''mean_std''], PInt 1)],
    Inr (PTensor [1 / 10 ^ 8], PFloat 0))"
  by (simp add: global_statistics_def config_defs compute_stats_def parse_defs
      tensor_scale_dataset_def substitute_def getitem_def global_valid_def is_float_def
      is_tensor_def)

subsection \<open>Claims about RescaleEnergyEtc\<close>

text \<open>
  C1, as the code has it. Resolving the empty request list calls the dataset once, with
  no field and no mode, and returns the empty list when that call returns (its error
  otherwise). So a call of \<^verbatim>\<open>RescaleEnergyEtc\<close> with \<^verbatim>\<open>initialize\<close> true whose
  sources pass the check and hold no request string, and whose configuration sets the
  stride, calls the dataset exactly once, with empty lists and that stride; and so does
  such a call of \<^verbatim>\<open>PerSpecieRescale\<close> when no global shift is configured (with one it
  raises before the check).
\<close>

theorem empty_request_list_calls_dataset:
  "compute_stats [] dataset stride =
     ([([], [], stride)],
      (case dataset [] [] stride of Inl msg \<Rightarrow> Inl (DatasetError msg) | Inr vals \<Rightarrow> Inr [])) \<and>
   (collect_str_names global_valid (global_scale_source model config)
        [global_scale_source model config, global_shift_source config] [] = Inr [] \<and>
      config ''dataset_statistics_stride'' = Some stride \<longrightarrow>
    fst (RescaleEnergyEtc model config dataset True) = [([], [], stride)]) \<and>
   (config_get config ''global_rescale_shift'' PNone = PNone \<and>
      collect_str_names per_species_valid (global_scale_source model config)
        [config_get config ''PerSpeciesScaleShift_scales'' PNone,
         config_get config ''PerSpeciesScaleShift_shifts'' PNone,
         global_scale_source model config] [] = Inr [] \<and>
      config ''dataset_statistics_stride'' = Some stride \<longrightarrow>
    fst (PerSpecieRescale model config dataset truediv True) = [([], [], stride)])"
proof (intro conjI impI)
  show "compute_stats [] dataset stride =
     ([([], [], stride)],
      (case dataset [] [] stride of Inl msg \<Rightarrow> Inl (DatasetError msg) | Inr vals \<Rightarrow> Inr []))"
    by (rule compute_stats_Nil)
next
  assume "collect_str_names global_valid (global_scale_source model config)
        [global_scale_source model config, global_shift_source config] [] = Inr [] \<and>
      config ''dataset_statistics_stride'' = Some stride"
  then have "fst (global_statistics config dataset (global_scale_source model config)
      (global_shift_source config)) = [([], [], stride)]"
    by (simp add: global_statistics_def config_attr_def compute_stats_Nil
        del: collect_str_names.simps split: sum.splits)
  then show "fst (RescaleEnergyEtc model config dataset True) = [([], [], stride)]"
    by (simp add: fst_RescaleEnergyEtc)
next
  assume a: "config_get config ''global_rescale_shift'' PNone = PNone \<and>
      collect_str_names per_species_valid (global_scale_source model config)
        [config_get config ''PerSpeciesScaleShift_scales'' PNone,
         config_get config ''PerSpeciesScaleShift_shifts'' PNone,
         global_scale_source model config] [] = Inr [] \<and>
      config ''dataset_statistics_stride'' = Some stride"
  then have "fst (per_species_statistics config dataset truediv
         (config_get config ''PerSpeciesScaleShift_scales'' PNone)
         (config_get config ''PerSpeciesScaleShift_shifts'' PNone)
         (global_scale_source model config)) = [([], [], stride)]"
    by (simp add: per_species_statistics_def config_attr_def compute_stats_Nil
        del: collect_str_names.simps split: sum.splits)
  with a show "fst (PerSpecieRescale model config dataset truediv True) = [([], [], stride)]"
    by (simp add: fst_PerSpecieRescale)
qed

theorem empty_request_list_calls_dataset_witness:
  "fst (RescaleEnergyEtc energy_model literal_config (constant_dataset []) True) =
     [([], [], PInt 1)] \<and>
   fst (PerSpecieRescale energy_model per_species_literal_config (constant_dataset [])
          failing_truediv True) = [([], [], PInt 1)]"
  using empty_request_list_calls_dataset
      [of "constant_dataset []" "PInt 1" energy_model literal_config]
    empty_request_list_calls_dataset
      [of "constant_dataset []" "PInt 1" energy_model per_species_literal_config failing_truediv]
  by (simp add: config_defs per_species_literal_config_def global_scale_source_def
      global_shift_source_def global_valid_def per_species_valid_def is_float_def is_tensor_def
      is_list_def)

text \<open>
  C1 as stated fails: with the literal sources \<open>1.0\<close> and \<open>0.0\<close> the request list is
  empty and the dataset is called all the same.
\<close>

theorem literal_sources_call_dataset:
  "global_scale_source energy_model literal_config = PFloat 1 \<and>
   global_shift_source literal_config = PFloat 0 \<and>
   collect_str_names global_valid (PFloat 1) [PFloat 1, PFloat 0] [] = Inr [] \<and>
   fst (RescaleEnergyEtc energy_model literal_config (constant_dataset []) True) \<noteq> [] \<and>
   compute_stats [] (constant_dataset []) (PInt 1) = ([([], [], PInt 1)], Inr [])"
  by (simp add: config_defs global_scale_source_def global_shift_source_def global_valid_def
      is_float_def is_tensor_def RescaleEnergyEtc_def Let_def global_statistics_def
      compute_stats_Nil constant_dataset_def substitute_def check_threshold_def
      RESCALE_THRESHOLD_def)

text \<open>
  C3, at an input where the code departs from it. With the default scale source and
  \<^verbatim>\<open>global_rescale_shift\<close> set to \<^verbatim>\<open>None\<close>, the check raises, naming the scale: it
  tests \<^verbatim>\<open>global_scale is None\<close> where the loop's value is meant. For the same reason a
  list is let through as shift when the scale is \<^verbatim>\<open>None\<close>.
\<close>

theorem disabled_shift_is_rejected:
  "RescaleEnergyEtc energy_model shift_off_config dataset True =
     ([], Inl (InvalidScaleSourceType (PStr ''dataset_energy_std''))) \<and>
   RescaleEnergyEtc energy_model list_shift_config (constant_dataset []) True =
     ([([], [], PInt 1)],
      Inr (build_output energy_model list_shift_config PNone (PList [PFloat 1])))"
  by (simp add: config_defs shift_off_config_def list_shift_config_def RescaleEnergyEtc_def Let_def global_statistics_def
      global_valid_def is_float_def is_tensor_def compute_stats_Nil substitute_def
      check_threshold_def constant_dataset_def)

text \<open>
  C6, as the code has it. With \<^verbatim>\<open>initialize\<close> true, the configurator raises the
  error of a degenerate scale carrying \<open>x\<close> exactly when the scale after substitution is
  the Python float \<open>x\<close> and \<open>x\<close> is below the threshold; when it is a float at or above
  the threshold, the wrapper is built with it. A scale of another type is never compared.
\<close>

theorem degenerate_scale:
  "(snd (RescaleEnergyEtc model config dataset True) = Inl (DegenerateScaleError x)) =
     (\<exists>shift. snd (global_statistics config dataset (global_scale_source model config)
                     (global_shift_source config)) = Inr (PFloat x, shift) \<and>
              x < RESCALE_THRESHOLD) \<and>
   (snd (global_statistics config dataset (global_scale_source model config)
          (global_shift_source config)) = Inr (PFloat x, shift) \<and> RESCALE_THRESHOLD \<le> x \<longrightarrow>
    snd (RescaleEnergyEtc model config dataset True) =
      Inr (build_output model config (PFloat x) shift))"
proof -
  let ?g = "global_statistics config dataset (global_scale_source model config)
              (global_shift_source config)"
  obtain calls r where g: "?g = (calls, r)" by (cases ?g) auto
  show ?thesis
  proof (cases r)
    case (Inl e)
    with g global_statistics_errors [of config dataset _ _ calls e]
    have "e \<noteq> DegenerateScaleError x" by (auto simp: raised_while_resolving_def)
    with g Inl show ?thesis by (simp add: RescaleEnergyEtc_init)
  next
    case (Inr p)
    obtain scale sh where p: "p = (scale, sh)" by (cases p) auto
    show ?thesis
    proof (cases "check_threshold scale")
      case None
      then have "\<not> (\<exists>y. scale = PFloat y \<and> y < RESCALE_THRESHOLD)"
        by (auto simp: check_threshold_def split: pyval.splits if_splits)
      with g Inr p None show ?thesis by (auto simp: RescaleEnergyEtc_init)
    next
      case (Some e)
      then obtain y where "scale = PFloat y" "y < RESCALE_THRESHOLD" "e = DegenerateScaleError y"
        by (auto simp: check_threshold_Some)
      with g Inr p Some show ?thesis by (auto simp: RescaleEnergyEtc_init)
    qed
  qed
qed

theorem degenerate_scale_witness:
  "snd (RescaleEnergyEtc force_model default_config rms_dataset True) =
     Inl (DegenerateScaleError (1 / 10 ^ 8)) \<and>
   snd (RescaleEnergyEtc energy_model literal_config (constant_dataset []) True) =
     Inr (build_output energy_model literal_config (PFloat 1) (PFloat 0))"
proof -
  have s: "global_scale_source force_model default_config = PStr ''dataset_force_rms''"
    by (simp add: config_defs global_scale_source_def)
  have h: "global_shift_source default_config = PStr ''dataset_energy_mean''"
    by (simp add: config_defs global_shift_source_def)
  have lt: "(1 / 10 ^ 8 :: real) < RESCALE_THRESHOLD"
    by (simp add: RESCALE_THRESHOLD_def)
  have s': "global_scale_source energy_model literal_config = PFloat 1"
    by (simp add: config_defs global_scale_source_def)
  have h': "global_shift_source literal_config = PFloat 0"
    by (simp add: config_defs global_shift_source_def)
  have ge: "RESCALE_THRESHOLD \<le> 1"
    by (simp add: RESCALE_THRESHOLD_def)
  from degenerate_scale [of force_model default_config rms_dataset "1 / 10 ^ 8" "PFloat 0"]
    rms_statistics s h lt
  have low: "snd (RescaleEnergyEtc force_model default_config rms_dataset True) =
     Inl (DegenerateScaleError (1 / 10 ^ 8))" by simp
  from degenerate_scale [of energy_model literal_config "constant_dataset []" 1 "PFloat 0"]
    literal_statistics s' h' ge
  have high: "snd (RescaleEnergyEtc energy_model literal_config (constant_dataset []) True) =
     Inr (build_output energy_model literal_config (PFloat 1) (PFloat 0))" by simp
  from low high show ?thesis by simp
qed

text \<open>
  C6 as stated fails for a scalar that is no float: when the dataset returns the integer
  zero as the scale, or a one-entry tensor of a hundred-millionth, the scale is below the
  threshold and the wrapper is built with it.
\<close>

theorem integer_scale_is_not_compared:
  "global_scale_source force_model default_config = PStr ''dataset_force_rms'' \<and>
   global_shift_source default_config = PStr ''dataset_energy_mean'' \<and>
   snd (global_statistics default_config zero_scale_dataset (PStr ''dataset_force_rms'')
          (PStr ''dataset_energy_mean'')) = Inr (PInt 0, PFloat 0) \<and>
   real_of_int 0 < RESCALE_THRESHOLD \<and>
   snd (RescaleEnergyEtc force_model default_config zero_scale_dataset True) =
     Inr (build_output force_model default_config (PInt 0) (PFloat 0)) \<and>
   snd (global_statistics default_config tensor_scale_dataset (PStr ''dataset_force_rms'')
          (PStr ''dataset_energy_mean'')) = Inr (PTensor [1 / 10 ^ 8], PFloat 0) \<and>
   snd (RescaleEnergyEtc force_model default_config tensor_scale_dataset True) =
     Inr (build_output force_model default_config (PTensor [1 / 10 ^ 8]) (PFloat 0))"
proof -
  have s: "global_scale_source force_model default_config = PStr ''dataset_force_rms''"
    by (simp add: config_defs global_scale_source_def)
  have h: "global_shift_source default_config = PStr ''dataset_energy_mean''"
    by (simp add: config_defs global_shift_source_def)
  have lt: "real_of_int 0 < RESCALE_THRESHOLD"
    by (simp add: RESCALE_THRESHOLD_def)
  have zero: "snd (RescaleEnergyEtc force_model default_config zero_scale_dataset True) =
     Inr (build_output force_model default_config (PInt 0) (PFloat 0))"
    unfolding RescaleEnergyEtc_init s h zero_scale_statistics
    by (simp add: check_threshold_def)
  have tens: "snd (RescaleEnergyEtc force_model default_config tensor_scale_dataset True) =
     Inr (build_output force_model default_config (PTensor [1 / 10 ^ 8]) (PFloat 0))"
    unfolding RescaleEnergyEtc_init s h tensor_scale_statistics
    by (simp add: check_threshold_def)
  from s h lt zero tens show ?thesis
    unfolding zero_scale_statistics tensor_scale_statistics by simp
qed

text \<open>
  C7. With \<^verbatim>\<open>initialize\<close> false the dataset is not called, and the wrapper gets the
  scale \<open>1.0\<close> and the shift \<open>0.0\<close>, each \<^verbatim>\<open>None\<close> when its source is \<^verbatim>\<open>None\<close>.
\<close>

theorem skip_statistics:
  "fst (RescaleEnergyEtc model config dataset False) = [] \<and>
   snd (RescaleEnergyEtc model config dataset False) =
     Inr (build_output model config
       (if global_scale_source model config = PNone then PNone else PFloat 1)
       (if global_shift_source config = PNone then PNone else PFloat 0))"
  by (simp add: RescaleEnergyEtc_def Let_def global_scale_source_def global_shift_source_def)

theorem skip_statistics_witness:
  "fst (RescaleEnergyEtc energy_model energy_std_config rms_dataset False) = [] \<and>
   snd (RescaleEnergyEtc energy_model energy_std_config rms_dataset False) =
     Inr (build_output energy_model energy_std_config (PFloat 1) PNone)"
  using skip_statistics [of energy_model energy_std_config rms_dataset]
  by (simp add: config_defs energy_std_config_def global_scale_source_def global_shift_source_def)

subsection \<open>Claims about PerSpecieRescale\<close>

text \<open>
  C2, as the code has it. The configurator raises the error of conflicting shifts exactly
  when \<^verbatim>\<open>global_rescale_shift\<close> is not \<^verbatim>\<open>None\<close>, whatever \<^verbatim>\<open>initialize\<close> and
  whether or not per-species shifts are configured, and then the dataset has not been
  called.
\<close>

theorem global_shift_is_rejected:
  "(snd (PerSpecieRescale model config dataset truediv initialize) =
      Inl ConflictingShiftConfigError) =
     (config_get config ''global_rescale_shift'' PNone \<noteq> PNone) \<and>
   (config_get config ''global_rescale_shift'' PNone \<noteq> PNone \<longrightarrow>
      fst (PerSpecieRescale model config dataset truediv initialize) = [])"
proof (cases "config_get config ''global_rescale_shift'' PNone = PNone")
  case False
  then show ?thesis by (simp add: PerSpecieRescale_def Let_def)
next
  case True
  show ?thesis
  proof (cases initialize)
    case False
    with True show ?thesis by (simp add: PerSpecieRescale_def Let_def)
  next
    case init: True
    let ?stats = "per_species_statistics config dataset truediv
        (config_get config ''PerSpeciesScaleShift_scales'' PNone)
        (config_get config ''PerSpeciesScaleShift_shifts'' PNone)
        (global_scale_source model config)"
    obtain calls r where st: "?stats = (calls, r)" by (cases ?stats) auto
    show ?thesis
    proof (cases r)
      case (Inl e)
      with st per_species_statistics_errors [of config dataset truediv _ _ _ calls e]
      have "e \<noteq> ConflictingShiftConfigError"
        by (auto simp: raised_while_resolving_def)
      with True init st Inl show ?thesis by (simp add: PerSpecieRescale_init)
    next
      case (Inr t)
      with True init st show ?thesis
        by (simp add: PerSpecieRescale_init split: prod.splits)
    qed
  qed
qed

theorem global_shift_is_rejected_witness:
  "snd (PerSpecieRescale energy_model global_shift_config rms_dataset failing_truediv True) =
     Inl ConflictingShiftConfigError \<and>
   fst (PerSpecieRescale energy_model global_shift_config rms_dataset failing_truediv True) = [] \<and>
   snd (PerSpecieRescale energy_model default_config rms_dataset failing_truediv False) \<noteq>
     Inl ConflictingShiftConfigError"
  using global_shift_is_rejected
      [of energy_model global_shift_config rms_dataset failing_truediv True]
    global_shift_is_rejected [of energy_model default_config rms_dataset failing_truediv False]
  by (simp add: config_defs global_shift_config_def)

text \<open>
  C2 as stated fails: a global shift alone, with no per-species shift configured, is
  rejected.
\<close>

theorem global_shift_alone_is_rejected:
  "config_get global_shift_config ''global_rescale_shift'' PNone = PFloat 1 \<and>
   config_get global_shift_config ''PerSpeciesScaleShift_shifts'' PNone = PNone \<and>
   PerSpecieRescale energy_model global_shift_config rms_dataset failing_truediv True =
     ([], Inl ConflictingShiftConfigError) \<and>
   PerSpecieRescale energy_model global_shift_config rms_dataset failing_truediv False =
     ([], Inl ConflictingShiftConfigError)"
  by (simp add: config_defs global_shift_config_def PerSpecieRescale_def Let_def)

text \<open>
  C8, at an input where the code departs from it. With every default and
  \<^verbatim>\<open>initialize\<close> true, the check raises on the absent per-species scales (the same
  test of \<^verbatim>\<open>global_scale is None\<close>), so the division is never reached.
\<close>

theorem default_per_species_is_rejected:
  "PerSpecieRescale energy_model default_config dataset truediv True =
     ([], Inl (InvalidScaleSourceType (PStr ''dataset_energy_std''))) \<and>
   PerSpecieRescale force_model default_config dataset truediv True =
     ([], Inl (InvalidScaleSourceType (PStr ''dataset_force_rms'')))"
  by (simp add: config_defs PerSpecieRescale_def Let_def per_species_statistics_def
      per_species_valid_def is_float_def is_list_def is_tensor_def)

text \<open>
  X3. With \<^verbatim>\<open>initialize\<close> false and no global shift, the dataset is not called, and
  the scales and the shifts that are not \<^verbatim>\<open>None\<close> both become \<open>1.0\<close>.
\<close>

theorem per_species_placeholders:
  assumes "config_get config ''global_rescale_shift'' PNone = PNone"
  shows "\<exists>out. PerSpecieRescale model config dataset truediv False = ([], Inr out) \<and>
     final_scales out =
       (if config_get config ''PerSpeciesScaleShift_scales'' PNone = PNone
          then PNone else PFloat 1) \<and>
     final_shifts out =
       (if config_get config ''PerSpeciesScaleShift_shifts'' PNone = PNone
          then PNone else PFloat 1) \<and>
     final_global_scale out = global_scale_source model config"
  using assms by (simp add: PerSpecieRescale_def Let_def global_scale_source_def)

theorem per_species_placeholders_witness:
  "\<exists>out. PerSpecieRescale energy_model placeholder_config rms_dataset failing_truediv False =
       ([], Inr out) \<and>
     final_scales out = PFloat 1 \<and> final_shifts out = PFloat 1 \<and>
     final_global_scale out = PStr ''dataset_energy_std''"
  using per_species_placeholders [of placeholder_config energy_model rms_dataset failing_truediv]
  by (simp add: config_defs placeholder_config_def global_scale_source_def)

text \<open>
  X4. The resolver calls the dataset at most once, and so does each configurator.
\<close>

theorem dataset_called_at_most_once:
  "length (fst (compute_stats str_names dataset stride)) \<le> 1 \<and>
   length (fst (RescaleEnergyEtc model config dataset initialize)) \<le> 1 \<and>
   length (fst (PerSpecieRescale model config dataset truediv initialize)) \<le> 1"
proof (intro conjI)
  show "length (fst (compute_stats str_names dataset stride)) \<le> 1"
    by (rule compute_stats_calls)
next
  show "length (fst (RescaleEnergyEtc model config dataset initialize)) \<le> 1"
  proof (cases initialize)
    case True
    with global_statistics_calls
      [of config dataset "global_scale_source model config" "global_shift_source config"]
    show ?thesis by (simp add: fst_RescaleEnergyEtc)
  next
    case False
    then show ?thesis by (simp add: RescaleEnergyEtc_def Let_def)
  qed
next
  show "length (fst (PerSpecieRescale model config dataset truediv initialize)) \<le> 1"
  proof (cases "config_get config ''global_rescale_shift'' PNone = PNone \<and> initialize")
    case True
    with per_species_statistics_calls
      [of config dataset truediv "config_get config ''PerSpeciesScaleShift_scales'' PNone"
          "config_get config ''PerSpeciesScaleShift_shifts'' PNone"
          "global_scale_source model config"]
    show ?thesis by (simp add: fst_PerSpecieRescale)
  next
    case False
    then show ?thesis by (auto simp: PerSpecieRescale_def Let_def)
  qed
qed

lemma request_run:
  "PerSpecieRescale energy_model request_config species_dataset sample_truediv True =
     ([([''energy''], [''per_species_mean_std''], PInt 1)],
      Inr \<lparr>final_scales = PTensor [1, 2], final_shifts = PTensor [1, 3],
           final_global_scale = PFloat 2, insert_into_func = False,
           shared_params = request_config,
           params = [(''field'', PER_ATOM_ENERGY_KEY), (''out_field'', PER_ATOM_ENERGY_KEY)]\<rparr>)"
  by (simp add: PerSpecieRescale_def Let_def config_defs request_config_def
      per_species_statistics_def per_species_valid_def is_float_def is_list_def is_tensor_def
      compute_stats_def parse_defs species_dataset_def getitem_def substitute_def
      config_after_division_def)

text \<open>
  X5. The module is inserted with the two field parameters and the configuration. Unless
  the configured per-species scales are a tensor, that configuration is the one that came:
  scales and shifts resolved from request strings are not among the arguments. Every
  other key is as it came in any case.
\<close>

theorem module_parameters_ignore_statistics:
  assumes "snd (PerSpecieRescale model config dataset truediv initialize) = Inr out"
  shows "params out = [(''field'', PER_ATOM_ENERGY_KEY), (''out_field'', PER_ATOM_ENERGY_KEY)] \<and>
         (\<not> is_tensor (config_get config ''PerSpeciesScaleShift_scales'' PNone) \<longrightarrow>
            shared_params out = config) \<and>
         (\<forall>key. key \<noteq> ''PerSpeciesScaleShift_scales'' \<longrightarrow> shared_params out key = config key)"
  using assms
  by (auto simp: PerSpecieRescale_def Let_def config_after_division_def
      split: if_splits prod.splits sum.splits)

theorem module_parameters_ignore_statistics_witness:
  "\<exists>out. snd (PerSpecieRescale energy_model request_config species_dataset sample_truediv
               True) = Inr out \<and>
     final_scales out = PTensor [1, 2] \<and>
     shared_params out = request_config \<and>
     shared_params out ''PerSpeciesScaleShift_scales'' =
       Some (PStr ''dataset_per_species_energy_std'') \<and>
     params out = [(''field'', PER_ATOM_ENERGY_KEY), (''out_field'', PER_ATOM_ENERGY_KEY)]"
proof -
  obtain out where o:
    "snd (PerSpecieRescale energy_model request_config species_dataset sample_truediv True) =
       Inr out" and f: "final_scales out = PTensor [1, 2]"
    by (simp add: request_run)
  have nt: "\<not> is_tensor (config_get request_config ''PerSpeciesScaleShift_scales'' PNone)"
    by (simp add: request_config_def config_get_def is_tensor_def)
  from module_parameters_ignore_statistics [OF o] nt
  have "shared_params out = request_config \<and>
        params out = [(''field'', PER_ATOM_ENERGY_KEY), (''out_field'', PER_ATOM_ENERGY_KEY)]"
    by blast
  moreover have "request_config ''PerSpeciesScaleShift_scales'' =
       Some (PStr ''dataset_per_species_energy_std'')"
    by (simp add: request_config_def)
  ultimately show ?thesis using o f by auto
qed

text \<open>
  X6. Per-species scales configured as a tensor are divided in place: the configuration
  the module receives holds the quotient.
\<close>

theorem tensor_scales_are_divided_in_place:
  assumes "snd (PerSpecieRescale model config dataset truediv True) = Inr out"
    and "is_tensor (config_get config ''PerSpeciesScaleShift_scales'' PNone)"
    and "final_global_scale out \<noteq> PNone"
  shows "shared_params out ''PerSpeciesScaleShift_scales'' = Some (final_scales out)"
  using assms
  by (auto simp: PerSpecieRescale_def Let_def config_after_division_def
      split: if_splits prod.splits sum.splits)

lemma tensor_run:
  "\<exists>out. PerSpecieRescale energy_model tensor_config species_dataset sample_truediv True =
       ([([], [], PInt 1)], Inr out) \<and>
     final_scales out = PTensor [1, 2] \<and> final_global_scale out = PFloat 2"
  by (simp add: PerSpecieRescale_def Let_def config_defs tensor_config_def
      per_species_statistics_def per_species_valid_def is_float_def is_list_def is_tensor_def
      compute_stats_Nil species_dataset_def substitute_def config_after_division_def)

theorem tensor_scales_are_divided_in_place_witness:
  "\<exists>out. snd (PerSpecieRescale energy_model tensor_config species_dataset sample_truediv
               True) = Inr out \<and>
     final_scales out = PTensor [1, 2] \<and>
     shared_params out ''PerSpeciesScaleShift_scales'' = Some (PTensor [1, 2])"
proof -
  obtain out where o:
    "snd (PerSpecieRescale energy_model tensor_config species_dataset sample_truediv True) =
       Inr out" and f: "final_scales out = PTensor [1, 2]"
    and g: "final_global_scale out = PFloat 2"
    using tensor_run by auto
  have t: "is_tensor (config_get tensor_config ''PerSpeciesScaleShift_scales'' PNone)"
    by (simp add: tensor_config_def config_get_def is_tensor_def)
  from tensor_scales_are_divided_in_place [OF o t] g f o show ?thesis by auto
qed

end
